theory Spec2Isabelle
  imports Main
begin

section \<open>Data model (src/src/App.tsx, lines 23-54)\<close>

text \<open>
  \<^verbatim>\<open>ElementStyle\<close> is an object with optional string-valued keys. The exporter walks it
  with \<^verbatim>\<open>Object.entries\<close>, so the order of its keys is observable: a style is an
  association list from key names to values, in the object's own key order.
\<close>

type_synonym ElementStyle = "(string \<times> string) list"

record Position =
  pos_x :: int
  pos_y :: int

record Size =
  sz_width :: int
  sz_height :: int

text \<open>
  \<^verbatim>\<open>interface Element\<close>. The field \<^verbatim>\<open>type\<close> is declared as a union of six string
  literals, but the only place that builds an element casts an arbitrary string into it
  (\<^verbatim>\<open>draggedElement.type as Element["type"]\<close>), so it is a string here. A JavaScript
  number is a double; the model holds the integer-valued ones (pixel offsets, list
  lengths, what \<^verbatim>\<open>parseInt\<close> reads from the position inputs), and the arithmetic the
  document operations perform on them is rounded as double arithmetic rounds it
  (\<open>js_add\<close> below).
\<close>

record Element =
  defaultContent :: string
  el_id :: string
  el_type :: string
  content :: string
  style :: ElementStyle
  position :: Position
  el_size :: Size
  locked :: bool
  visible :: bool
  zIndex :: int

text \<open>\<^verbatim>\<open>interface HistoryState\<close>: the document, that is the elements and the selection.\<close>

record HistoryState =
  elements :: "Element list"
  selectedElementId :: "string option"

text \<open>
  \<^verbatim>\<open>Partial<Element>\<close>, the argument of \<^verbatim>\<open>updateElement\<close>: every field of an element,
  each either absent (\<open>None\<close>) or present.
\<close>

record PartialElement =
  upd_defaultContent :: "string option"
  upd_id :: "string option"
  upd_type :: "string option"
  upd_content :: "string option"
  upd_style :: "ElementStyle option"
  upd_position :: "Position option"
  upd_size :: "Size option"
  upd_locked :: "bool option"
  upd_visible :: "bool option"
  upd_zIndex :: "int option"

definition noUpdates :: PartialElement where
  "noUpdates = \<lparr>upd_defaultContent = None, upd_id = None, upd_type = None,
     upd_content = None, upd_style = None, upd_position = None, upd_size = None,
     upd_locked = None, upd_visible = None, upd_zIndex = None\<rparr>"

section \<open>History (the hook \<^verbatim>\<open>useHistory\<close>, lines 57-98)\<close>

text \<open>
  The hook keeps two pieces of state, \<^verbatim>\<open>history\<close> and \<^verbatim>\<open>currentIndex\<close>. Each callback
  reads them and stores new values; the model passes the pair explicitly and returns the
  updated pair, one call after the other.
\<close>

record History =
  history :: "HistoryState list"
  currentIndex :: nat

definition initialState :: HistoryState where
  "initialState = \<lparr>elements = [], selectedElementId = None\<rparr>"

definition useHistory :: "HistoryState \<Rightarrow> History" where
  "useHistory init = \<lparr>history = [init], currentIndex = 0\<rparr>"

text \<open>
  \<^verbatim>\<open>history[i]\<close>: an index outside the array reads \<^verbatim>\<open>undefined\<close>, which the callers
  test with \<^verbatim>\<open>if (prevState)\<close> exactly as they test \<^verbatim>\<open>null\<close>; both are \<open>None\<close>.
\<close>

definition js_index :: "'a list \<Rightarrow> nat \<Rightarrow> 'a option" where
  "js_index xs i = (if i < length xs then Some (xs ! i) else None)"

text \<open>\<^verbatim>\<open>history.slice(0, currentIndex + 1)\<close>, then \<^verbatim>\<open>push\<close>, then the index of the last entry.\<close>

definition pushState :: "HistoryState \<Rightarrow> History \<Rightarrow> History" where
  "pushState state h =
     (let newHistory = take (currentIndex h + 1) (history h) @ [state]
      in \<lparr>history = newHistory, currentIndex = length newHistory - 1\<rparr>)"

definition undo :: "History \<Rightarrow> HistoryState option \<times> History" where
  "undo h =
     (if currentIndex h > 0
      then (js_index (history h) (currentIndex h - 1), h\<lparr>currentIndex := currentIndex h - 1\<rparr>)
      else (None, h))"

text \<open>
  \<^verbatim>\<open>currentIndex < history.length - 1\<close> is a comparison of JavaScript numbers, where
  \<^verbatim>\<open>0 - 1\<close> is \<^verbatim>\<open>-1\<close>; it is evaluated over the integers.
\<close>

definition redo :: "History \<Rightarrow> HistoryState option \<times> History" where
  "redo h =
     (if int (currentIndex h) < int (length (history h)) - 1
      then (js_index (history h) (currentIndex h + 1), h\<lparr>currentIndex := currentIndex h + 1\<rparr>)
      else (None, h))"

definition currentState :: "History \<Rightarrow> HistoryState option" where
  "currentState h = js_index (history h) (currentIndex h)"

definition canUndo :: "History \<Rightarrow> bool" where
  "canUndo h = (currentIndex h > 0)"

definition canRedo :: "History \<Rightarrow> bool" where
  "canRedo h = (int (currentIndex h) < int (length (history h)) - 1)"

section \<open>Utility functions (lines 100-173)\<close>

text \<open>
  An entry of \<^verbatim>\<open>componentLibrary\<close>. Only \<^verbatim>\<open>type\<close> and \<^verbatim>\<open>defaultContent\<close> are read by the
  code below; the icon and the label are used by the side bar alone.
\<close>

record LibraryItem =
  item_type :: string
  item_defaultContent :: string

definition componentLibrary :: "LibraryItem list" where
  "componentLibrary =
     [\<lparr>item_type = ''heading'', item_defaultContent = ''Your Heading''\<rparr>,
      \<lparr>item_type = ''text'', item_defaultContent = ''Your text content goes here...''\<rparr>,
      \<lparr>item_type = ''button'', item_defaultContent = ''Click Me''\<rparr>,
      \<lparr>item_type = ''image'', item_defaultContent = ''https://via.placeholder.com/300x200''\<rparr>,
      \<lparr>item_type = ''container'', item_defaultContent = ''''\<rparr>,
      \<lparr>item_type = ''divider'', item_defaultContent = ''''\<rparr>]"

text \<open>
  \<^verbatim>\<open>getDefaultStyle\<close>: the lookup \<^verbatim>\<open>baseStyles[type] || {}\<close>. A type that is no key of the
  table yields the empty style. (A name the table object inherits, such as
  \<^verbatim>\<open>constructor\<close>, yields an object without entries of its own, which the exporter reads
  as the empty style too.)
\<close>

definition baseStyles :: "(string \<times> ElementStyle) list" where
  "baseStyles =
     [(''heading'',
         [(''fontSize'', ''32px''), (''fontWeight'', ''bold''), (''color'', ''#1f2937''),
          (''margin'', ''16px 0''), (''textAlign'', ''left'')]),
      (''text'',
         [(''fontSize'', ''16px''), (''color'', ''#374151''), (''margin'', ''8px 0''),
          (''textAlign'', ''left'')]),
      (''button'',
         [(''backgroundColor'', ''#3b82f6''), (''color'', ''white''),
          (''padding'', ''12px 24px''), (''borderRadius'', ''8px''), (''fontSize'', ''16px''),
          (''fontWeight'', ''500''), (''border'', ''none'')]),
      (''image'',
         [(''borderRadius'', ''8px''), (''width'', ''300px''), (''height'', ''200px'')]),
      (''container'',
         [(''backgroundColor'', ''#f9fafb''), (''padding'', ''24px''),
          (''borderRadius'', ''8px''), (''border'', ''2px dashed #d1d5db''),
          (''width'', ''400px''), (''height'', ''200px'')]),
      (''divider'',
         [(''backgroundColor'', ''#e5e7eb''), (''height'', ''2px''), (''width'', ''100%''),
          (''margin'', ''16px 0'')])]"

definition getDefaultStyle :: "string \<Rightarrow> ElementStyle" where
  "getDefaultStyle t = (case map_of baseStyles t of Some st \<Rightarrow> st | None \<Rightarrow> [])"

section \<open>The editor's document operations (lines 229-337)\<close>

text \<open>
  The component holds \<^verbatim>\<open>elements\<close> and \<^verbatim>\<open>selectedElementId\<close>; every handler below maps
  the pair to the new pair. \<^verbatim>\<open>generateId\<close> draws a random token: the token drawn is an
  argument of the operation that draws it. The checkpoint each handler schedules with
  \<^verbatim>\<open>setTimeout\<close> only hands the resulting pair to \<^verbatim>\<open>pushState\<close> and is not part of the
  transition.
\<close>

text \<open>The object spread \<^verbatim>\<open>{ ...el, ...updates }\<close>: a field present in \<^verbatim>\<open>updates\<close> wins.\<close>

definition spread_field :: "'a \<Rightarrow> 'a option \<Rightarrow> 'a" where
  "spread_field old new = (case new of Some v \<Rightarrow> v | None \<Rightarrow> old)"

definition spreadElement :: "Element \<Rightarrow> PartialElement \<Rightarrow> Element" where
  "spreadElement el updates =
     \<lparr>defaultContent = spread_field (defaultContent el) (upd_defaultContent updates),
      el_id = spread_field (el_id el) (upd_id updates),
      el_type = spread_field (el_type el) (upd_type updates),
      content = spread_field (content el) (upd_content updates),
      style = spread_field (style el) (upd_style updates),
      position = spread_field (position el) (upd_position updates),
      el_size = spread_field (el_size el) (upd_size updates),
      locked = spread_field (locked el) (upd_locked updates),
      visible = spread_field (visible el) (upd_visible updates),
      zIndex = spread_field (zIndex el) (upd_zIndex updates)\<rparr>"

definition updateElement :: "string \<Rightarrow> PartialElement \<Rightarrow> HistoryState \<Rightarrow> HistoryState" where
  "updateElement i updates s =
     s\<lparr>elements := map (\<lambda>el. if el_id el = i then spreadElement el updates else el) (elements s)\<rparr>"

definition deleteElement :: "string \<Rightarrow> HistoryState \<Rightarrow> HistoryState" where
  "deleteElement i s =
     \<lparr>elements = filter (\<lambda>el. el_id el \<noteq> i) (elements s),
      selectedElementId = (if selectedElementId s = Some i then None else selectedElementId s)\<rparr>"

text \<open>
  The operator \<^verbatim>\<open>+\<close> on numbers is the addition of doubles: the exact sum, rounded to
  the nearest double, a tie going to the even significand. A double has a significand of
  53 bits, so every integer below \<open>2 ^ 53\<close> in magnitude is a double, and a larger integer
  is one when it is a multiple of \<open>2 ^ (bitlen a - 53)\<close>, \<open>bitlen a\<close> being the number of
  binary digits of its magnitude \<open>a\<close>. (The sums of this file add 20 to a finite double,
  which never leaves the finite doubles.)
\<close>

function bitlen :: "nat \<Rightarrow> nat" where
  "bitlen n = (if n = 0 then 0 else Suc (bitlen (n div 2)))"
  by pat_completeness auto
termination
  by (relation "measure (\<lambda>n. n)") auto

declare bitlen.simps [simp del]

definition round_double :: "int \<Rightarrow> int" where
  "round_double v =
     (let a = nat \<bar>v\<bar> in
      if a < 2 ^ 53 then v
      else
        (let e = bitlen a - 53;
             q = a div 2 ^ e;
             r = a mod 2 ^ e;
             half = 2 ^ (e - 1);
             q' = (if r > half \<or> (r = half \<and> odd q) then q + 1 else q)
         in sgn v * int (q' * 2 ^ e)))"

definition js_add :: "int \<Rightarrow> int \<Rightarrow> int" where
  "js_add a b = round_double (a + b)"

text \<open>\<^verbatim>\<open>duplicateElement\<close>; \<open>newId\<close> is the token \<^verbatim>\<open>generateId()\<close> returns.\<close>

definition duplicateElement :: "string \<Rightarrow> string \<Rightarrow> HistoryState \<Rightarrow> HistoryState" where
  "duplicateElement i newId s =
     (case find (\<lambda>el. el_id el = i) (elements s) of
        Some element \<Rightarrow>
          (let newElement = element
                 \<lparr>el_id := newId,
                  position := \<lparr>pos_x = js_add (pos_x (position element)) 20,
                               pos_y = js_add (pos_y (position element)) 20\<rparr>,
                  zIndex := int (length (elements s))\<rparr>
           in \<lparr>elements = elements s @ [newElement], selectedElementId = Some (el_id newElement)\<rparr>)
      | None \<Rightarrow> s)"

text \<open>
  What \<^verbatim>\<open>handleDragStart\<close> stores in \<^verbatim>\<open>draggedElement\<close>: an entry of the component library
  or an element of the canvas.
\<close>

datatype Dragged = FromLibrary LibraryItem | Placed Element

text \<open>
  \<^verbatim>\<open>"type" in draggedElement\<close>: a library entry and an element both carry the key
  \<^verbatim>\<open>type\<close> (and both carry \<^verbatim>\<open>defaultContent\<close>).
\<close>

fun has_type_key :: "Dragged \<Rightarrow> bool" where
  "has_type_key (FromLibrary item) = True"
| "has_type_key (Placed el) = True"

fun dragged_type :: "Dragged \<Rightarrow> string" where
  "dragged_type (FromLibrary item) = item_type item"
| "dragged_type (Placed el) = el_type el"

fun dragged_defaultContent :: "Dragged \<Rightarrow> string" where
  "dragged_defaultContent (FromLibrary item) = item_defaultContent item"
| "dragged_defaultContent (Placed el) = defaultContent el"

fun dragged_id :: "Dragged \<Rightarrow> string option" where
  "dragged_id (FromLibrary item) = None"
| "dragged_id (Placed el) = Some (el_id el)"

text \<open>
  \<^verbatim>\<open>handleDrop\<close>, for a canvas that is mounted. \<open>dx\<close> and \<open>dy\<close> are the drop point relative
  to the canvas (\<^verbatim>\<open>e.clientX - rect.left\<close>, \<^verbatim>\<open>e.clientY - rect.top\<close>), \<open>newId\<close> the token
  \<^verbatim>\<open>generateId()\<close> returns. There is no test of the type against the six known ones.
\<close>

definition handleDrop :: "Dragged option \<Rightarrow> string \<Rightarrow> int \<Rightarrow> int \<Rightarrow> HistoryState \<Rightarrow> HistoryState" where
  "handleDrop draggedElement newId dx dy s =
     (case draggedElement of
        None \<Rightarrow> s
      | Some d \<Rightarrow>
          if has_type_key d then
            (let newElement =
                   \<lparr>defaultContent = dragged_defaultContent d,
                    el_id = newId,
                    el_type = dragged_type d,
                    content = dragged_defaultContent d,
                    style = getDefaultStyle (dragged_type d),
                    position = \<lparr>pos_x = dx, pos_y = dy\<rparr>,
                    el_size = \<lparr>sz_width = 200, sz_height = 50\<rparr>,
                    locked = False,
                    visible = True,
                    zIndex = int (length (elements s))\<rparr>
             in \<lparr>elements = elements s @ [newElement], selectedElementId = Some (el_id newElement)\<rparr>)
          else
            (case dragged_id d of
               Some i \<Rightarrow> updateElement i (noUpdates\<lparr>upd_position := Some \<lparr>pos_x = dx, pos_y = dy\<rparr>\<rparr>) s
             | None \<Rightarrow> s))"

text \<open>
  \<open>create\<close> of the document store is a drop of a library entry: \<open>kind\<close> is the entry's
  \<^verbatim>\<open>type\<close> and \<open>dflt\<close> its \<^verbatim>\<open>defaultContent\<close>.
\<close>

definition create :: "string \<Rightarrow> string \<Rightarrow> string \<Rightarrow> int \<Rightarrow> int \<Rightarrow> HistoryState \<Rightarrow> HistoryState" where
  "create kind dflt newId dx dy s =
     handleDrop (Some (FromLibrary \<lparr>item_type = kind, item_defaultContent = dflt\<rparr>)) newId dx dy s"

section \<open>The exporter (\<^verbatim>\<open>exportCode\<close>, lines 341-397)\<close>

definition dq :: string where
  "dq = [CHR 0x22]"

definition nl :: string where
  "nl = [CHR 0x0A]"

definition indent :: "nat \<Rightarrow> string" where
  "indent n = replicate n (CHR '' '')"

text \<open>\<^verbatim>\<open>Array.prototype.join\<close>.\<close>

fun js_join :: "string list \<Rightarrow> string \<Rightarrow> string" where
  "js_join [] sep = []"
| "js_join [s] sep = s"
| "js_join (s # t # ss) sep = s @ sep @ js_join (t # ss) sep"

text \<open>A number inside a template literal: the decimal digits of an integer, with its sign.\<close>

function string_of_nat :: "nat \<Rightarrow> string" where
  "string_of_nat n =
     (if n < 10 then [char_of (48 + n)]
      else string_of_nat (n div 10) @ [char_of (48 + n mod 10)])"
  by pat_completeness auto
termination
  by (relation "measure (\<lambda>n. n)") auto

declare string_of_nat.simps [simp del]

definition js_toString :: "int \<Rightarrow> string" where
  "js_toString i = (if i < 0 then ''-'' @ string_of_nat (nat (- i)) else string_of_nat (nat i))"

text \<open>
  \<^verbatim>\<open>key.replace(/([A-Z])/g, "-$1").toLowerCase()\<close>: a hyphen before every capital letter,
  then every capital letter in lower case. Style keys are ASCII identifiers.
\<close>

definition is_upper :: "char \<Rightarrow> bool" where
  "is_upper c = (65 \<le> (of_char c :: nat) \<and> (of_char c :: nat) \<le> 90)"

definition toLowerCase_char :: "char \<Rightarrow> char" where
  "toLowerCase_char c = (if is_upper c then char_of ((of_char c :: nat) + 32) else c)"

fun hyphenate_capitals :: "string \<Rightarrow> string" where
  "hyphenate_capitals [] = []"
| "hyphenate_capitals (c # cs) =
     (if is_upper c then CHR ''-'' # c # hyphenate_capitals cs else c # hyphenate_capitals cs)"

definition css_property :: "string \<Rightarrow> string" where
  "css_property key = map toLowerCase_char (hyphenate_capitals key)"

definition styleEntry :: "string \<times> string \<Rightarrow> string" where
  "styleEntry kv = css_property (fst kv) @ '': '' @ snd kv @ '';''"

text \<open>The style rule of one element: the body of the first \<^verbatim>\<open>elements.map\<close>.\<close>

definition styleRule :: "Element \<Rightarrow> string" where
  "styleRule el = concat
     [nl, indent 8, ''.element-'', el_id el, '' {'',
      nl, indent 12, ''position: absolute;'',
      nl, indent 12, ''left: '', js_toString (pos_x (position el)), ''px;'',
      nl, indent 12, ''top: '', js_toString (pos_y (position el)), ''px;'',
      nl, indent 12, ''z-index: '', js_toString (zIndex el), '';'',
      nl, indent 12, js_join (map styleEntry (style el)) '' '',
      nl, indent 8, ''}'',
      nl, indent 8]"

text \<open>The tag of one element: the \<^verbatim>\<open>switch\<close> of the second \<^verbatim>\<open>elements.map\<close>.\<close>

definition markupTag :: "Element \<Rightarrow> string" where
  "markupTag el =
     (if el_type el = ''heading'' then
        ''<h1 class='' @ dq @ ''element-'' @ el_id el @ dq @ ''>'' @ content el @ ''</h1>''
      else if el_type el = ''text'' then
        ''<p class='' @ dq @ ''element-'' @ el_id el @ dq @ ''>'' @ content el @ ''</p>''
      else if el_type el = ''button'' then
        ''<button class='' @ dq @ ''element-'' @ el_id el @ dq @ ''>'' @ content el @ ''</button>''
      else if el_type el = ''image'' then
        ''<img class='' @ dq @ ''element-'' @ el_id el @ dq @ '' src='' @ dq @ content el @ dq
          @ '' alt='' @ dq @ ''Image'' @ dq @ '' />''
      else if el_type el = ''container'' then
        ''<div class='' @ dq @ ''element-'' @ el_id el @ dq @ ''></div>''
      else if el_type el = ''divider'' then
        ''<hr class='' @ dq @ ''element-'' @ el_id el @ dq @ '' />''
      else [])"

definition exportStyleRules :: "Element list \<Rightarrow> string" where
  "exportStyleRules els = js_join (map styleRule els) []"

definition exportMarkup :: "Element list \<Rightarrow> string" where
  "exportMarkup els = js_join (map markupTag els) []"

definition export_head :: string where
  "export_head = concat
     [nl, ''<!DOCTYPE html>'',
      nl, ''<html lang='', dq, ''en'', dq, ''>'',
      nl, ''<head>'',
      nl, indent 4, ''<meta charset='', dq, ''UTF-8'', dq, ''>'',
      nl, indent 4, ''<meta name='', dq, ''viewport'', dq, '' content='', dq,
            ''width=device-width, initial-scale=1.0'', dq, ''>'',
      nl, indent 4, ''<title>Generated Website</title>'',
      nl, indent 4, ''<style>'',
      nl, indent 8, ''* { margin: 0; padding: 0; box-sizing: border-box; }'',
      nl, indent 8, ''body { font-family: -apple-system, BlinkMacSystemFont, 'Segoe UI', Roboto, sans-serif; }'',
      nl, indent 8, ''.container { position: relative; min-height: 100vh; }'',
      nl, indent 8]"

definition export_middle :: string where
  "export_middle = concat
     [nl, indent 4, ''</style>'',
      nl, ''</head>'',
      nl, ''<body>'',
      nl, indent 4, ''<div class='', dq, ''container'', dq, ''>'',
      nl, indent 8]"

definition export_tail :: string where
  "export_tail = concat
     [nl, indent 4, ''</div>'',
      nl, ''</body>'',
      nl, ''</html>'']"

text \<open>
  The text \<^verbatim>\<open>exportCode\<close> builds from the elements on the canvas (the download of the
  text as a file is the browser's part).
\<close>

definition exportCode :: "Element list \<Rightarrow> string" where
  "exportCode els =
     export_head @ exportStyleRules els @ export_middle @ exportMarkup els @ export_tail"

section \<open>The style inputs of the properties panel (lines 780-880)\<close>

text \<open>
  The object literal \<^verbatim>\<open>{ ...selectedElement.style, key: value }\<close>: a key the style already
  has keeps its place and takes the new value, a new key goes last.
\<close>

fun js_set_key :: "ElementStyle \<Rightarrow> string \<Rightarrow> string \<Rightarrow> ElementStyle" where
  "js_set_key [] key v = [(key, v)]"
| "js_set_key ((k, w) # rest) key v =
     (if k = key then (k, v) # rest else (k, w) # js_set_key rest key v)"

text \<open>\<^verbatim>\<open>elements.find((el) => el.id === selectedElementId)\<close>.\<close>

definition selectedElement :: "HistoryState \<Rightarrow> Element option" where
  "selectedElement s = find (\<lambda>el. Some (el_id el) = selectedElementId s) (elements s)"

text \<open>
  The \<^verbatim>\<open>onChange\<close> handler of a style input; the panel is rendered only while an
  element is selected.
\<close>

definition styleInput_onChange :: "string \<Rightarrow> string \<Rightarrow> HistoryState \<Rightarrow> HistoryState" where
  "styleInput_onChange key v s =
     (case selectedElement s of
        Some sel \<Rightarrow>
          updateElement (el_id sel) (noUpdates\<lparr>upd_style := Some (js_set_key (style sel) key v)\<rparr>) s
      | None \<Rightarrow> s)"

section \<open>Sequences of document operations\<close>

text \<open>
  One call of the document store: a drop of a library entry (kind, default content, drawn
  token, drop point), an update, a deletion, a duplication (source id, drawn token).
\<close>

datatype Op =
  Create string string string int int
| Update string PartialElement
| Delete string
| Duplicate string string

fun apply_op :: "HistoryState \<Rightarrow> Op \<Rightarrow> HistoryState" where
  "apply_op s (Create kind dflt newId dx dy) = create kind dflt newId dx dy s"
| "apply_op s (Update i updates) = updateElement i updates s"
| "apply_op s (Delete i) = deleteElement i s"
| "apply_op s (Duplicate i newId) = duplicateElement i newId s"

fun run_ops :: "HistoryState \<Rightarrow> Op list \<Rightarrow> HistoryState" where
  "run_ops s [] = s"
| "run_ops s (op # ops) = run_ops (apply_op s op) ops"

definition ids :: "HistoryState \<Rightarrow> string list" where
  "ids s = map el_id (elements s)"

text \<open>
  The token an operation draws is fresh: no element of the document it is applied to has
  it. \<^verbatim>\<open>duplicateElement\<close> draws a token only when it finds its source.
\<close>

fun draws_fresh :: "HistoryState \<Rightarrow> Op \<Rightarrow> bool" where
  "draws_fresh s (Create kind dflt newId dx dy) = (newId \<notin> set (ids s))"
| "draws_fresh s (Update i updates) = True"
| "draws_fresh s (Delete i) = True"
| "draws_fresh s (Duplicate i newId) = (i \<notin> set (ids s) \<or> newId \<notin> set (ids s))"

fun fresh_run :: "HistoryState \<Rightarrow> Op list \<Rightarrow> bool" where
  "fresh_run s [] = True"
| "fresh_run s (op # ops) = (draws_fresh s op \<and> fresh_run (apply_op s op) ops)"

text \<open>An operation that passes no \<^verbatim>\<open>id\<close> field to \<^verbatim>\<open>updateElement\<close>.\<close>

fun keeps_ids :: "Op \<Rightarrow> bool" where
  "keeps_ids (Update i updates) = (upd_id updates = None)"
| "keeps_ids op = True"

section \<open>What the specification asks of the exporter\<close>

text \<open>
  The specification's words, for comparison with \<^verbatim>\<open>exportCode\<close>: tag content is
  ``HTML-escaped'', that is the five characters with a meaning in markup are replaced by
  their entities; and elements are emitted ``in ascending zIndex then insertion order for
  ties'', that is in the order of a stable sort by \<^verbatim>\<open>zIndex\<close>.
\<close>

fun spec_html_escape :: "string \<Rightarrow> string" where
  "spec_html_escape [] = []"
| "spec_html_escape (c # cs) =
     (if c = CHR ''&'' then ''&amp;''
      else if c = CHR ''<'' then ''&lt;''
      else if c = CHR ''>'' then ''&gt;''
      else if c = CHR 0x22 then ''&quot;''
      else if c = CHR 0x27 then ''&#39;''
      else [c]) @ spec_html_escape cs"

definition spec_export_order :: "Element list \<Rightarrow> Element list" where
  "spec_export_order els = sort_key zIndex els"

section \<open>Sample documents\<close>

definition sampleHeading :: Element where
  "sampleHeading =
     \<lparr>defaultContent = ''Your Heading'', el_id = ''a'', el_type = ''heading'',
      content = ''<b>Tom & Jerry</b>'',
      style = [(''color'', ''red''), (''fontSize'', ''16px'')],
      position = \<lparr>pos_x = 10, pos_y = 10\<rparr>, el_size = \<lparr>sz_width = 200, sz_height = 50\<rparr>,
      locked = False, visible = False, zIndex = 0\<rparr>"

definition sampleDocument :: HistoryState where
  "sampleDocument = \<lparr>elements = [sampleHeading], selectedElementId = Some ''a''\<rparr>"

text \<open>
  The sample heading moved to the x position 1000000000000000000000, which the X Position
  input of the properties panel accepts.
\<close>

definition farDocument :: HistoryState where
  "farDocument =
     \<lparr>elements = [sampleHeading\<lparr>position := \<lparr>pos_x = 1000000000000000000000, pos_y = 10\<rparr>\<rparr>],
      selectedElementId = Some ''a''\<rparr>"

text \<open>A sequence with every kind of operation, none of which passes an \<^verbatim>\<open>id\<close> field.\<close>

definition sampleOps :: "Op list" where
  "sampleOps =
     [Create ''heading'' ''Your Heading'' ''a'' 10 10,
      Create ''button'' ''Click Me'' ''b'' 40 40,
      Update ''a'' (noUpdates\<lparr>upd_content := Some ''Hi''\<rparr>),
      Duplicate ''b'' ''c'',
      Delete ''a'',
      Duplicate ''a'' ''c'']"

text \<open>Two drops with fresh tokens, then an update that renames the first element to the second's id.\<close>

definition clashingOps :: "Op list" where
  "clashingOps =
     [Create ''heading'' ''Your Heading'' ''a'' 10 10,
      Create ''button'' ''Click Me'' ''b'' 40 40,
      Update ''a'' (noUpdates\<lparr>upd_id := Some ''b''\<rparr>)]"

text \<open>Three drops, two deletions and a fourth drop: the element dropped last gets the
  \<^verbatim>\<open>zIndex\<close> 1, below the surviving element's 2.\<close>

definition reorderingOps :: "Op list" where
  "reorderingOps =
     [Create ''heading'' ''Your Heading'' ''a'' 10 10,
      Create ''heading'' ''Your Heading'' ''b'' 20 20,
      Create ''heading'' ''Your Heading'' ''c'' 30 30,
      Delete ''a'',
      Delete ''b'',
      Create ''text'' ''Your text content goes here...'' ''d'' 40 40]"

section \<open>Helper lemmas\<close>

lemma map_id_on: "(\<And>a. a \<in> set xs \<Longrightarrow> f a = a) \<Longrightarrow> map f xs = xs"
  by (induction xs) auto

lemma js_join_empty_sep: "js_join xs [] = concat xs"
  by (induction xs "[] :: string" rule: js_join.induct) auto

section \<open>History: undo, push, redo\<close>

text \<open>
  Claim C1. From any history state and for any document \<open>T\<close>, \<open>undo\<close> followed by
  \<open>pushState T\<close> leaves the log cut down to the entries up to and including the cursor
  (the cursor as the undo left it) with \<open>T\<close> appended, puts the cursor on the new last
  index, where \<open>T\<close> is the current state, and a \<open>redo\<close> then returns nothing and
  changes nothing.
\<close>

theorem undo_then_push_discards_redo:
  "(let h1 = snd (undo h); h2 = pushState T h1 in
      history h2 = take (currentIndex h1 + 1) (history h1) @ [T]
    \<and> currentIndex h2 = length (history h2) - 1
    \<and> currentState h2 = Some T
    \<and> redo h2 = (None, h2)
    \<and> \<not> canRedo h2)"
  by (simp add: Let_def pushState_def redo_def canRedo_def currentState_def js_index_def nth_append)

text \<open>
  Claim C2, as stated, fails where the undo has nothing to undo. With the log
  \<open>[initialState, sampleDocument]\<close> and the cursor on 0, \<open>undo\<close> returns nothing and
  leaves the cursor on 0, which is not the end of the log; the \<open>redo\<close> that follows
  returns \<open>sampleDocument\<close>, not the document that was current before the undo.
\<close>

theorem redo_after_noop_undo_counterexample:
  "canRedo (snd (undo \<lparr>history = [initialState, sampleDocument], currentIndex = 0\<rparr>))
   \<and> currentState \<lparr>history = [initialState, sampleDocument], currentIndex = 0\<rparr> = Some initialState
   \<and> fst (redo (snd (undo \<lparr>history = [initialState, sampleDocument], currentIndex = 0\<rparr>)))
       = Some sampleDocument
   \<and> sampleDocument \<noteq> initialState"
  by (simp add: undo_def redo_def canRedo_def currentState_def js_index_def
      initialState_def sampleDocument_def)

text \<open>
  Claim C2, amended. When the cursor is past the start of the log, so that the undo takes
  effect, and the cursor the undo leaves is not at the end of the log, the \<open>redo\<close> that
  follows returns exactly the document that was current before the undo, and the cursor
  is back where it was.
\<close>

theorem redo_after_effective_undo:
  assumes "currentIndex h > 0" and "canRedo (snd (undo h))"
  shows "fst (redo (snd (undo h))) = currentState h
       \<and> currentState h = Some (history h ! currentIndex h)
       \<and> currentIndex (snd (redo (snd (undo h)))) = currentIndex h"
  using assms
  by (auto simp add: undo_def redo_def canRedo_def currentState_def js_index_def)

text \<open>Claim C2, amended: the theorem at a log of two documents with the cursor on the second.\<close>

theorem redo_after_effective_undo_witness:
  "currentIndex \<lparr>history = [initialState, sampleDocument], currentIndex = 1\<rparr> > 0
   \<and> canRedo (snd (undo \<lparr>history = [initialState, sampleDocument], currentIndex = 1\<rparr>))
   \<and> fst (redo (snd (undo \<lparr>history = [initialState, sampleDocument], currentIndex = 1\<rparr>)))
       = Some sampleDocument"
proof -
  let ?h = "\<lparr>history = [initialState, sampleDocument], currentIndex = 1\<rparr>"
  have a: "currentIndex ?h > 0" by simp
  have b: "canRedo (snd (undo ?h))" by (simp add: undo_def canRedo_def)
  from redo_after_effective_undo [OF a b] a b show ?thesis
    by (simp add: currentState_def js_index_def)
qed

section \<open>Updating an element\<close>

text \<open>
  Claim C9. For every document and every id that none of its elements has,
  \<open>updateElement\<close> returns the document as it was: the same elements and the same
  selection. The function is total, there is no error value to return.
\<close>

theorem update_unknown_id_noop:
  assumes "i \<notin> set (ids s)"
  shows "updateElement i updates s = s"
proof -
  have "map (\<lambda>el. if el_id el = i then spreadElement el updates else el) (elements s) = elements s"
    using assms by (intro map_id_on) (auto simp: ids_def)
  then show ?thesis by (simp add: updateElement_def)
qed

text \<open>Claim C9: the theorem at the sample document and an id it does not contain.\<close>

theorem update_unknown_id_noop_witness:
  "''zz'' \<notin> set (ids sampleDocument)
   \<and> updateElement ''zz'' (noUpdates\<lparr>upd_content := Some ''Hi''\<rparr>) sampleDocument = sampleDocument"
proof -
  have a: "''zz'' \<notin> set (ids sampleDocument)"
    by (simp add: ids_def sampleDocument_def sampleHeading_def)
  from update_unknown_id_noop [OF a] a show ?thesis by simp
qed

section \<open>Updating with a partial element\<close>

lemma updateElement_nth:
  assumes "n < length (elements s)" and "el_id (elements s ! n) = i"
  shows "elements (updateElement i updates s) ! n = spreadElement (elements s ! n) updates"
  using assms by (simp add: updateElement_def)

text \<open>
  Claim C10. For every document and every element of it that has the given id,
  \<open>updateElement\<close> gives each field of the element the value the partial holds for it,
  and leaves a field the partial does not hold as it was; no field is exempt. A partial
  with an \<^verbatim>\<open>id\<close> field therefore replaces the element's identifier.
\<close>

theorem update_applies_every_field:
  assumes "n < length (elements s)" and "el_id (elements s ! n) = i"
  shows "(let e = elements s ! n; e' = elements (updateElement i updates s) ! n in
      defaultContent e' = (case upd_defaultContent updates of Some v \<Rightarrow> v | None \<Rightarrow> defaultContent e)
    \<and> el_id e' = (case upd_id updates of Some v \<Rightarrow> v | None \<Rightarrow> el_id e)
    \<and> el_type e' = (case upd_type updates of Some v \<Rightarrow> v | None \<Rightarrow> el_type e)
    \<and> content e' = (case upd_content updates of Some v \<Rightarrow> v | None \<Rightarrow> content e)
    \<and> style e' = (case upd_style updates of Some v \<Rightarrow> v | None \<Rightarrow> style e)
    \<and> position e' = (case upd_position updates of Some v \<Rightarrow> v | None \<Rightarrow> position e)
    \<and> el_size e' = (case upd_size updates of Some v \<Rightarrow> v | None \<Rightarrow> el_size e)
    \<and> locked e' = (case upd_locked updates of Some v \<Rightarrow> v | None \<Rightarrow> locked e)
    \<and> visible e' = (case upd_visible updates of Some v \<Rightarrow> v | None \<Rightarrow> visible e)
    \<and> zIndex e' = (case upd_zIndex updates of Some v \<Rightarrow> v | None \<Rightarrow> zIndex e)
    \<and> (\<forall>j. upd_id updates = Some j \<longrightarrow> el_id e' = j))"
  unfolding Let_def updateElement_nth [OF assms]
  by (simp add: spreadElement_def spread_field_def)

text \<open>
  Claim C10: the theorem at the sample document, with a partial that holds only a new id.
\<close>

theorem update_applies_every_field_witness:
  "0 < length (elements sampleDocument) \<and> el_id (elements sampleDocument ! 0) = ''a''
   \<and> el_id (elements (updateElement ''a'' (noUpdates\<lparr>upd_id := Some ''b''\<rparr>) sampleDocument) ! 0) = ''b''
   \<and> content (elements (updateElement ''a'' (noUpdates\<lparr>upd_id := Some ''b''\<rparr>) sampleDocument) ! 0)
       = ''<b>Tom & Jerry</b>''"
proof -
  have a: "0 < length (elements sampleDocument)" by (simp add: sampleDocument_def)
  have b: "el_id (elements sampleDocument ! 0) = ''a''"
    by (simp add: sampleDocument_def sampleHeading_def)
  from update_applies_every_field [OF a b, of "noUpdates\<lparr>upd_id := Some ''b''\<rparr>"] a b
  show ?thesis by (simp add: Let_def noUpdates_def sampleDocument_def sampleHeading_def)
qed

text \<open>
  Claim C3, as stated, fails. The sample element has the style keys \<^verbatim>\<open>color\<close> and
  \<^verbatim>\<open>fontSize\<close>; an update whose style record sets \<^verbatim>\<open>color\<close> only leaves the element
  without \<^verbatim>\<open>fontSize\<close>, which the partial's style did not mention.
\<close>

theorem update_style_replaces_counterexample:
  "map (\<lambda>el. map_of (style el) ''fontSize'') (elements sampleDocument) = [Some ''16px'']
   \<and> map (\<lambda>el. map_of (style el) ''fontSize'')
        (elements (updateElement ''a'' (noUpdates\<lparr>upd_style := Some [(''color'', ''blue'')]\<rparr>)
           sampleDocument)) = [None]"
  by (simp add: updateElement_def spreadElement_def spread_field_def noUpdates_def
      sampleDocument_def sampleHeading_def)

text \<open>
  Claim C3, amended. For every document, every element of it that has the given id and
  every partial, \<open>updateElement\<close> replaces the element's style record as a whole by the
  partial's style record when the partial holds one (so a key absent from the partial's
  style is absent afterwards), and leaves the style as it was when the partial holds none.
\<close>

theorem update_style_replaces:
  assumes "n < length (elements s)" and "el_id (elements s ! n) = i"
  shows "style (elements (updateElement i updates s) ! n)
         = (case upd_style updates of Some st \<Rightarrow> st | None \<Rightarrow> style (elements s ! n))"
  using assms by (simp add: updateElement_def spreadElement_def spread_field_def)

text \<open>
  Claim C3, amended: the theorem at the sample document and a style record with one key.
\<close>

theorem update_style_replaces_witness:
  "0 < length (elements sampleDocument) \<and> el_id (elements sampleDocument ! 0) = ''a''
   \<and> style (elements (updateElement ''a'' (noUpdates\<lparr>upd_style := Some [(''color'', ''blue'')]\<rparr>)
        sampleDocument) ! 0) = [(''color'', ''blue'')]"
proof -
  have a: "0 < length (elements sampleDocument)" by (simp add: sampleDocument_def)
  have b: "el_id (elements sampleDocument ! 0) = ''a''"
    by (simp add: sampleDocument_def sampleHeading_def)
  from update_style_replaces [OF a b, of "noUpdates\<lparr>upd_style := Some [(''color'', ''blue'')]\<rparr>"] a b
  show ?thesis by (simp add: noUpdates_def)
qed

text \<open>
  The patching of single style keys is the work of the callers: each style input of the
  properties panel passes the selected element's whole style with one key set.
\<close>

lemma map_of_js_set_key:
  "map_of (js_set_key st key v) k = (if k = key then Some v else map_of st k)"
  by (induction st key v rule: js_set_key.induct) auto

lemma styleInput_patches:
  assumes "selectedElement s = Some sel" and "n < length (elements s)"
    and "el_id (elements s ! n) = el_id sel"
  shows "map_of (style (elements (styleInput_onChange key v s) ! n)) k
         = (if k = key then Some v else map_of (style sel) k)"
  using assms
  by (simp add: styleInput_onChange_def updateElement_def spreadElement_def spread_field_def
      noUpdates_def map_of_js_set_key)

section \<open>Duplicating an element\<close>

lemma round_double_exact: "\<bar>v\<bar> < 2 ^ 53 \<Longrightarrow> round_double v = v"
proof -
  assume "\<bar>v\<bar> < 2 ^ 53"
  then have "nat \<bar>v\<bar> < 2 ^ 53" by simp
  then show ?thesis by (simp add: round_double_def)
qed

lemma js_add_20_exact: "\<bar>v\<bar> < 2 ^ 53 - 20 \<Longrightarrow> js_add v 20 = v + 20"
proof -
  assume "\<bar>v\<bar> < 2 ^ 53 - 20"
  then have "\<bar>v + 20\<bar> < 2 ^ 53" by simp
  then show ?thesis unfolding js_add_def by (rule round_double_exact)
qed

text \<open>
  Claim C5, as stated, fails in two places. The id of the clone is whatever token
  \<^verbatim>\<open>generateId\<close> draws, and nothing compares it with the ids of the document: when the
  token drawn is \<^verbatim>\<open>a\<close>, the duplicate of \<^verbatim>\<open>a\<close> has the id \<^verbatim>\<open>a\<close> too. And the offset is a
  sum of doubles: at the x position 1000000000000000000000 the sum with 20 rounds back to
  the same number, so the clone has the x position of its source.
\<close>

theorem duplicate_clones_counterexample:
  "ids (duplicateElement ''a'' ''a'' sampleDocument) = [''a'', ''a'']
   \<and> map (\<lambda>el. pos_x (position el)) (elements (duplicateElement ''a'' ''b'' farDocument))
       = [1000000000000000000000, 1000000000000000000000]"
proof -
  have "bitlen 1000000000000000000020 = 70"
    by (simp add: bitlen.simps)
  then have "js_add 1000000000000000000000 20 = 1000000000000000000000"
    by (simp add: js_add_def round_double_def Let_def)
  then show ?thesis
    by (simp add: duplicateElement_def ids_def sampleDocument_def farDocument_def
        sampleHeading_def)
qed

text \<open>
  Claim C5, amended. When the document has an element with the given id (\<open>src\<close> is the first
  such), \<open>duplicateElement\<close> appends one element, the clone: its content, style, size,
  type, locked and visible fields are the source's; its id is the drawn token, which
  differs from every id of the document whenever the token drawn is fresh; its position
  is the source's moved by 20 in each axis in double arithmetic, which is exactly 20
  whenever the source's coordinate is below \<open>2 ^ 53 - 20\<close> in magnitude; its \<^verbatim>\<open>zIndex\<close> is
  its own index in the new list, the last one; and it is the selected element. When no
  element has the given id the document is returned as it was.
\<close>

theorem duplicate_clones:
  "(find (\<lambda>el. el_id el = i) (elements s) = Some src \<longrightarrow>
      (let s' = duplicateElement i newId s; clone = last (elements s') in
         elements s' = elements s @ [clone]
       \<and> content clone = content src \<and> style clone = style src \<and> el_size clone = el_size src
       \<and> el_type clone = el_type src \<and> locked clone = locked src \<and> visible clone = visible src
       \<and> defaultContent clone = defaultContent src
       \<and> el_id clone = newId
       \<and> (newId \<notin> set (ids s) \<longrightarrow> (\<forall>el \<in> set (elements s). el_id clone \<noteq> el_id el))
       \<and> pos_x (position clone) = js_add (pos_x (position src)) 20
       \<and> pos_y (position clone) = js_add (pos_y (position src)) 20
       \<and> (\<bar>pos_x (position src)\<bar> < 2 ^ 53 - 20
            \<longrightarrow> pos_x (position clone) = pos_x (position src) + 20)
       \<and> (\<bar>pos_y (position src)\<bar> < 2 ^ 53 - 20
            \<longrightarrow> pos_y (position clone) = pos_y (position src) + 20)
       \<and> zIndex clone = int (length (elements s))
       \<and> elements s' ! nat (zIndex clone) = clone
       \<and> length (elements s') = nat (zIndex clone) + 1
       \<and> selectedElementId s' = Some (el_id clone)))
   \<and> (i \<notin> set (ids s) \<longrightarrow> duplicateElement i newId s = s)"
proof (intro conjI impI)
  assume found: "find (\<lambda>el. el_id el = i) (elements s) = Some src"
  define clone where "clone = src
     \<lparr>el_id := newId,
      position := \<lparr>pos_x = js_add (pos_x (position src)) 20,
                   pos_y = js_add (pos_y (position src)) 20\<rparr>,
      zIndex := int (length (elements s))\<rparr>"
  have dup: "duplicateElement i newId s
      = \<lparr>elements = elements s @ [clone], selectedElementId = Some newId\<rparr>"
    using found by (simp add: duplicateElement_def clone_def Let_def)
  have fresh: "newId \<notin> set (ids s) \<longrightarrow> (\<forall>el \<in> set (elements s). el_id clone \<noteq> el_id el)"
    by (auto simp: ids_def clone_def)
  have px: "\<bar>pos_x (position src)\<bar> < 2 ^ 53 - 20
      \<longrightarrow> pos_x (position clone) = pos_x (position src) + 20"
    by (simp add: clone_def js_add_20_exact)
  have py: "\<bar>pos_y (position src)\<bar> < 2 ^ 53 - 20
      \<longrightarrow> pos_y (position clone) = pos_y (position src) + 20"
    by (simp add: clone_def js_add_20_exact)
  have fields: "content clone = content src \<and> style clone = style src
      \<and> el_size clone = el_size src \<and> el_type clone = el_type src
      \<and> locked clone = locked src \<and> visible clone = visible src
      \<and> defaultContent clone = defaultContent src \<and> el_id clone = newId
      \<and> pos_x (position clone) = js_add (pos_x (position src)) 20
      \<and> pos_y (position clone) = js_add (pos_y (position src)) 20
      \<and> zIndex clone = int (length (elements s))"
    by (simp add: clone_def)
  have "last (elements (duplicateElement i newId s)) = clone"
    by (simp add: dup)
  with dup fresh px py fields
  show "let s' = duplicateElement i newId s; clone = last (elements s') in
         elements s' = elements s @ [clone]
       \<and> content clone = content src \<and> style clone = style src \<and> el_size clone = el_size src
       \<and> el_type clone = el_type src \<and> locked clone = locked src \<and> visible clone = visible src
       \<and> defaultContent clone = defaultContent src
       \<and> el_id clone = newId
       \<and> (newId \<notin> set (ids s) \<longrightarrow> (\<forall>el \<in> set (elements s). el_id clone \<noteq> el_id el))
       \<and> pos_x (position clone) = js_add (pos_x (position src)) 20
       \<and> pos_y (position clone) = js_add (pos_y (position src)) 20
       \<and> (\<bar>pos_x (position src)\<bar> < 2 ^ 53 - 20
            \<longrightarrow> pos_x (position clone) = pos_x (position src) + 20)
       \<and> (\<bar>pos_y (position src)\<bar> < 2 ^ 53 - 20
            \<longrightarrow> pos_y (position clone) = pos_y (position src) + 20)
       \<and> zIndex clone = int (length (elements s))
       \<and> elements s' ! nat (zIndex clone) = clone
       \<and> length (elements s') = nat (zIndex clone) + 1
       \<and> selectedElementId s' = Some (el_id clone)"
    by (simp add: Let_def)
next
  assume "i \<notin> set (ids s)"
  then have "find (\<lambda>el. el_id el = i) (elements s) = None"
    by (auto simp: find_None_iff ids_def)
  then show "duplicateElement i newId s = s"
    by (simp add: duplicateElement_def)
qed

text \<open>
  Claim C5, amended: the theorem at the sample document, once for the id it contains,
  with a fresh token and coordinates in the exact range, and once for an id it does not
  contain.
\<close>

theorem duplicate_clones_witness:
  "find (\<lambda>el. el_id el = ''a'') (elements sampleDocument) = Some sampleHeading
   \<and> ''b'' \<notin> set (ids sampleDocument)
   \<and> \<bar>pos_x (position sampleHeading)\<bar> < 2 ^ 53 - 20
   \<and> \<bar>pos_y (position sampleHeading)\<bar> < 2 ^ 53 - 20
   \<and> ''zz'' \<notin> set (ids sampleDocument)
   \<and> elements (duplicateElement ''a'' ''b'' sampleDocument)
       = [sampleHeading,
          sampleHeading\<lparr>el_id := ''b'', position := \<lparr>pos_x = 30, pos_y = 30\<rparr>, zIndex := 1\<rparr>]
   \<and> selectedElementId (duplicateElement ''a'' ''b'' sampleDocument) = Some ''b''
   \<and> duplicateElement ''zz'' ''b'' sampleDocument = sampleDocument"
proof -
  have a: "find (\<lambda>el. el_id el = ''a'') (elements sampleDocument) = Some sampleHeading"
    by (simp add: sampleDocument_def sampleHeading_def)
  have b: "''b'' \<notin> set (ids sampleDocument)"
    by (simp add: ids_def sampleDocument_def sampleHeading_def)
  have c: "''zz'' \<notin> set (ids sampleDocument)"
    by (simp add: ids_def sampleDocument_def sampleHeading_def)
  have px: "\<bar>pos_x (position sampleHeading)\<bar> < 2 ^ 53 - 20"
    by (simp add: sampleHeading_def)
  have py: "\<bar>pos_y (position sampleHeading)\<bar> < 2 ^ 53 - 20"
    by (simp add: sampleHeading_def)
  note present = duplicate_clones [of "''a''" sampleDocument sampleHeading "''b''", THEN conjunct1,
      rule_format, OF a, unfolded Let_def]
  note absent = duplicate_clones [of "''zz''" sampleDocument sampleHeading "''b''", THEN conjunct2,
      rule_format, OF c]
  have xs: "pos_x (position sampleHeading) = 10" "pos_y (position sampleHeading) = 10"
    by (simp_all add: sampleHeading_def)
  have "js_add 10 20 = 30"
    using js_add_20_exact [of 10] by simp
  then have d: "elements (duplicateElement ''a'' ''b'' sampleDocument)
       = [sampleHeading,
          sampleHeading\<lparr>el_id := ''b'', position := \<lparr>pos_x = 30, pos_y = 30\<rparr>, zIndex := 1\<rparr>]"
    by (simp add: duplicateElement_def sampleDocument_def sampleHeading_def)
  have sel: "selectedElementId (duplicateElement ''a'' ''b'' sampleDocument) = Some ''b''"
    using present by simp
  show ?thesis by (intro conjI) (rule a b c px py d sel absent)+
qed

section \<open>Uniqueness of ids\<close>

lemma ids_create: "ids (create kind dflt newId dx dy s) = ids s @ [newId]"
  by (simp add: create_def handleDrop_def ids_def)

lemma ids_update_keeps:
  "upd_id updates = None \<Longrightarrow> ids (updateElement i updates s) = ids s"
  by (simp add: updateElement_def ids_def spreadElement_def spread_field_def)

lemma ids_delete: "ids (deleteElement i s) = filter (\<lambda>k. k \<noteq> i) (ids s)"
  by (simp add: deleteElement_def ids_def filter_map comp_def)

lemma ids_duplicate:
  "ids (duplicateElement i newId s) = (if i \<in> set (ids s) then ids s @ [newId] else ids s)"
proof (cases "find (\<lambda>el. el_id el = i) (elements s)")
  case None
  then have "i \<notin> set (ids s)" by (auto simp: find_None_iff ids_def)
  with None show ?thesis by (simp add: duplicateElement_def)
next
  case (Some src)
  then have "i \<in> set (ids s)" by (auto simp: find_Some_iff ids_def)
  with Some show ?thesis by (simp add: duplicateElement_def ids_def)
qed

lemma apply_op_distinct:
  assumes "distinct (ids s)" and "draws_fresh s op" and "keeps_ids op"
  shows "distinct (ids (apply_op s op))"
proof (cases op)
  case (Create kind dflt newId dx dy)
  with assms show ?thesis by (simp add: ids_create)
next
  case (Update i updates)
  with assms show ?thesis by (simp add: ids_update_keeps)
next
  case (Delete i)
  with assms show ?thesis by (simp add: ids_delete)
next
  case (Duplicate i newId)
  with assms show ?thesis by (auto simp add: ids_duplicate)
qed

lemma run_ops_distinct:
  "distinct (ids s) \<Longrightarrow> fresh_run s ops \<Longrightarrow> list_all keeps_ids ops
   \<Longrightarrow> distinct (ids (run_ops s ops))"
proof (induction ops arbitrary: s)
  case Nil
  then show ?case by simp
next
  case (Cons op ops)
  from Cons.prems have "distinct (ids (apply_op s op))"
    by (simp add: apply_op_distinct)
  with Cons show ?case by simp
qed

text \<open>
  Claim C4, as stated, fails: freshness of the drawn tokens is not enough. After two drops
  with the fresh tokens \<^verbatim>\<open>a\<close> and \<^verbatim>\<open>b\<close>, an update of \<^verbatim>\<open>a\<close> whose partial holds the id
  \<^verbatim>\<open>b\<close> leaves two elements with the id \<^verbatim>\<open>b\<close>.
\<close>

theorem ids_unique_counterexample:
  "fresh_run initialState clashingOps
   \<and> map el_id (elements (run_ops initialState clashingOps)) = [''b'', ''b'']
   \<and> \<not> distinct (map el_id (elements (run_ops initialState clashingOps)))"
proof -
  have ids: "map el_id (elements (run_ops initialState clashingOps)) = [''b'', ''b'']"
    by (simp add: clashingOps_def initialState_def create_def handleDrop_def updateElement_def
        spreadElement_def spread_field_def noUpdates_def)
  have a: "fresh_run initialState clashingOps"
    by (simp add: clashingOps_def initialState_def ids_def create_def handleDrop_def updateElement_def
        spreadElement_def spread_field_def noUpdates_def)
  from a ids show ?thesis by simp
qed

text \<open>
  Claim C4, amended. For every finite sequence of create, update, delete and duplicate
  operations that starts from the empty document, draws a fresh token wherever it draws
  one, and passes no \<^verbatim>\<open>id\<close> field to an update, the resulting list of elements has no
  two entries with the same id.
\<close>

theorem ids_unique_without_id_updates:
  assumes "fresh_run initialState ops" and "list_all keeps_ids ops"
  shows "distinct (map el_id (elements (run_ops initialState ops)))"
proof -
  have "distinct (ids initialState)" by (simp add: ids_def initialState_def)
  from run_ops_distinct [OF this assms] show ?thesis by (simp add: ids_def)
qed

text \<open>
  Claim C4, amended: the theorem at a sequence that uses all four operations.
\<close>

theorem ids_unique_without_id_updates_witness:
  "fresh_run initialState sampleOps \<and> list_all keeps_ids sampleOps
   \<and> map el_id (elements (run_ops initialState sampleOps)) = [''b'', ''c'']
   \<and> distinct (map el_id (elements (run_ops initialState sampleOps)))"
proof -
  have ids: "map el_id (elements (run_ops initialState sampleOps)) = [''b'', ''c'']"
    by (simp add: sampleOps_def initialState_def create_def handleDrop_def updateElement_def
        deleteElement_def duplicateElement_def spreadElement_def spread_field_def noUpdates_def)
  have a: "fresh_run initialState sampleOps"
    by (simp add: sampleOps_def initialState_def ids_def create_def handleDrop_def updateElement_def
        deleteElement_def duplicateElement_def spreadElement_def spread_field_def noUpdates_def)
  have b: "list_all keeps_ids sampleOps"
    by (simp add: sampleOps_def noUpdates_def)
  from ids_unique_without_id_updates [OF a b] a b ids show ?thesis by simp
qed

section \<open>The exported text\<close>

text \<open>
  Claim C6 is what the rest of the editor does with the content of a heading, a text or a
  button: the canvas renders it as a text child, an edit reads it back as
  \<^verbatim>\<open>textContent\<close>, and the Content input takes any text. The exporter alone writes it
  into the tag as markup. For the sample heading, whose content is the typed text
  \<^verbatim>\<open><b>Tom & Jerry</b>\<close>, the exported tag carries these characters as they are, where
  the escaped content is \<^verbatim>\<open>&lt;b&gt;Tom &amp; Jerry&lt;/b&gt;\<close>.
\<close>

theorem export_emits_content_unescaped:
  "exportMarkup (elements sampleDocument)
     = ''<h1 class='' @ dq @ ''element-a'' @ dq @ ''><b>Tom & Jerry</b></h1>''
   \<and> spec_html_escape (content sampleHeading) = ''&lt;b&gt;Tom &amp; Jerry&lt;/b&gt;''
   \<and> exportMarkup (elements sampleDocument)
     \<noteq> ''<h1 class='' @ dq @ ''element-a'' @ dq @ ''>'' @ spec_html_escape (content sampleHeading)
         @ ''</h1>''"
  by (simp add: exportMarkup_def markupTag_def sampleDocument_def sampleHeading_def dq_def)

text \<open>
  Claim C7, as stated, fails on a document the editor can reach. After three drops, the
  deletion of the first two elements and a fourth drop, the list holds \<^verbatim>\<open>c\<close> with
  \<^verbatim>\<open>zIndex\<close> 2 before \<^verbatim>\<open>d\<close> with \<^verbatim>\<open>zIndex\<close> 1. The export emits the tag of \<^verbatim>\<open>c\<close>
  first; ascending \<^verbatim>\<open>zIndex\<close> order would emit \<^verbatim>\<open>d\<close> first.
\<close>

theorem export_not_by_zIndex_counterexample:
  "map el_id (elements (run_ops initialState reorderingOps)) = [''c'', ''d'']
   \<and> map zIndex (elements (run_ops initialState reorderingOps)) = [2, 1]
   \<and> map el_id (spec_export_order (elements (run_ops initialState reorderingOps))) = [''d'', ''c'']
   \<and> exportMarkup (elements (run_ops initialState reorderingOps))
       = ''<h1 class='' @ dq @ ''element-c'' @ dq @ ''>Your Heading</h1>''
         @ ''<p class='' @ dq @ ''element-d'' @ dq @ ''>Your text content goes here...</p>''
   \<and> exportMarkup (elements (run_ops initialState reorderingOps))
       \<noteq> exportMarkup (spec_export_order (elements (run_ops initialState reorderingOps)))"
  by (simp add: reorderingOps_def initialState_def create_def handleDrop_def deleteElement_def
      spec_export_order_def exportMarkup_def markupTag_def dq_def)

text \<open>
  Claim C7, amended. For every list of elements, the export emits the style rules and the
  markup tags in the order of the list itself, that is in insertion order, whatever the
  \<^verbatim>\<open>zIndex\<close> values are; every element of the list has its rule and its tag, and the
  exported text does not depend on the \<^verbatim>\<open>visible\<close> and \<^verbatim>\<open>locked\<close> flags.
\<close>

theorem export_list_order:
  "exportStyleRules els = concat (map styleRule els)
   \<and> exportMarkup els = concat (map markupTag els)
   \<and> exportCode els = export_head @ concat (map styleRule els) @ export_middle
        @ concat (map markupTag els) @ export_tail
   \<and> exportCode (map (\<lambda>el. el\<lparr>visible := v el, locked := l el\<rparr>) els) = exportCode els"
proof -
  have r: "map styleRule (map (\<lambda>el. el\<lparr>visible := v el, locked := l el\<rparr>) els) = map styleRule els"
    by (simp add: styleRule_def)
  have t: "map markupTag (map (\<lambda>el. el\<lparr>visible := v el, locked := l el\<rparr>) els) = map markupTag els"
    by (simp add: markupTag_def)
  show ?thesis
    unfolding exportCode_def exportStyleRules_def exportMarkup_def r t
    by (simp add: js_join_empty_sep)
qed

section \<open>Dropping an entry of an unknown kind\<close>

text \<open>
  Claim C8, as stated, fails. A drop of an entry of the kind \<^verbatim>\<open>video\<close>, which is none of
  the six known kinds, on the empty document is not rejected: the document then holds an
  element of that kind.
\<close>

theorem create_unknown_kind_counterexample:
  "''video'' \<notin> {''heading'', ''text'', ''button'', ''image'', ''container'', ''divider''}
   \<and> map el_type (elements (create ''video'' '''' ''a'' 5 7 initialState)) = [''video'']
   \<and> create ''video'' '''' ''a'' 5 7 initialState \<noteq> initialState"
  by (simp add: create_def handleDrop_def initialState_def)

text \<open>
  Claim C8, amended. For every document and every kind that is none of the six known
  ones, create signals no failure: it appends an element of that kind with the empty
  style, the entry's default content, the size 200 by 50, unlocked and visible, with
  \<^verbatim>\<open>zIndex\<close> the number of elements before the drop, and selects it.
\<close>

theorem create_unknown_kind_appends:
  assumes "kind \<notin> {''heading'', ''text'', ''button'', ''image'', ''container'', ''divider''}"
  shows "create kind dflt newId dx dy s =
     \<lparr>elements = elements s @
        [\<lparr>defaultContent = dflt, el_id = newId, el_type = kind, content = dflt, style = [],
          position = \<lparr>pos_x = dx, pos_y = dy\<rparr>, el_size = \<lparr>sz_width = 200, sz_height = 50\<rparr>,
          locked = False, visible = True, zIndex = int (length (elements s))\<rparr>],
      selectedElementId = Some newId\<rparr>"
proof -
  from assms have "map_of baseStyles kind = None"
    by (simp add: baseStyles_def)
  then show ?thesis
    by (simp add: create_def handleDrop_def getDefaultStyle_def)
qed

text \<open>
  Claim C8, amended: the theorem at the kind \<^verbatim>\<open>video\<close> and the empty document.
\<close>

theorem create_unknown_kind_appends_witness:
  "''video'' \<notin> {''heading'', ''text'', ''button'', ''image'', ''container'', ''divider''}
   \<and> elements (create ''video'' '''' ''a'' 5 7 initialState) =
        [\<lparr>defaultContent = '''', el_id = ''a'', el_type = ''video'', content = '''', style = [],
          position = \<lparr>pos_x = 5, pos_y = 7\<rparr>, el_size = \<lparr>sz_width = 200, sz_height = 50\<rparr>,
          locked = False, visible = True, zIndex = 0\<rparr>]"
proof -
  have a: "''video'' \<notin> {''heading'', ''text'', ''button'', ''image'', ''container'', ''divider''}"
    by simp
  from create_unknown_kind_appends [OF a, of "''''" "''a''" 5 7 initialState] a
  show ?thesis by (simp add: initialState_def)
qed

end
